theory Spec2Isabelle
  imports Main "HOL-Library.Word"
begin

section \<open>Values handled by BaseGame\<close>

text \<open>
  C++ \<open>float\<close> values are kept symbolic: a value records the float operations that
  produced it. No law of real arithmetic is assumed of them, so an equation between two
  such values says that the same operations were applied to the same operands.
\<close>

datatype cfloat =
    FloatVal nat
  | FloatOfInt int
  | FloatAdd cfloat cfloat
  | FloatDiv cfloat cfloat

datatype Vector3f = Vector3f (vx: cfloat) (vy: cfloat) (vz: cfloat)

datatype Quaternion = Quaternion cfloat cfloat cfloat cfloat

text \<open>\<open>Vector3f::operator+\<close>: componentwise float addition.\<close>

definition vadd :: "Vector3f \<Rightarrow> Vector3f \<Rightarrow> Vector3f" where
  "vadd a b = Vector3f (FloatAdd (vx a) (vx b)) (FloatAdd (vy a) (vy b)) (FloatAdd (vz a) (vz b))"

text \<open>
  \<open>entities::Player\<close>, read by \<open>prepareCamera\<close> through its getters only.
\<close>

record Player =
  getPosition :: Vector3f
  getScale :: Vector3f
  getHeadOrientation :: Quaternion

text \<open>
  Modelled from the spec: the class \<open>Camera\<close> is not part of the source file. Its
  setters \<open>setPerspective\<close>, \<open>setAspect\<close>, \<open>setPosition\<close> and \<open>setOrientation\<close>
  store their argument in the field of the same name.
\<close>

record Camera =
  camPerspective :: bool
  camAspect :: cfloat
  camPosition :: Vector3f
  camOrientation :: Quaternion

datatype Simulation = simulation_Player | simulation_Physics

text \<open>
  A \<open>World\<close> object, as far as \<open>BaseGame\<close> reads and writes it: its identity \<open>wid\<close>,
  its camera, its player entity and the simulations that are registered with it.
\<close>

record World =
  wid :: nat
  camera :: Camera
  player :: Player
  simulations :: "Simulation list"

datatype Renderer = Renderer nat

datatype ImguiRenderer = ImguiRenderer

datatype InputManager = InputManager

text \<open>
  A deferred task (\<open>std::function<void()>\<close>): its identity and whether calling it throws.
  What a task does beyond returning or throwing is outside this model.
\<close>

datatype Task = Task (taskId: nat) (throws: bool)

section \<open>Calls made by BaseGame\<close>

text \<open>
  The calls that \<open>BaseGame\<close> makes to its virtual hooks and to its collaborators. The
  bodies of these callees are not part of the source file; each call is recorded in the
  order in which it is made. A \<open>World\<close> appears in a call by its \<open>wid\<close>.
\<close>

datatype Call =
    onPreStopWorld
  | World_onStop nat
  | onPostStopWorld
  | onPreDestroyWorld nat
  | World_onDestroy nat
  | onPostDestroyWorld nat
  | Renderer_new nat
  | Renderer_setViewport
  | Renderer_init
  | InputManager_init
  | onPreStartWorld
  | World_onStart nat
  | onPostStartWorld
  | onPreCreateWorld nat
  | World_setConfig nat
  | World_onCreate nat
  | simulations_transact nat
  | addSimulation Simulation
  | Transaction_commit nat "Simulation list"
  | World_initPlayer nat
  | onPostCreateWorld nat
  | Window_processEvents
  | SDL_GetTicks "32 word"
  | SoundManager_update nat
  | World_update nat int
  | Renderer_render
  | ImguiRenderer_render
  | Screens_clear
  | Fps_countCycle
  | Window_swapBuffers
  | deferred nat
  | removeHook
  | Window_close
  | Chai_puts string

section \<open>The state of a BaseGame\<close>

type_synonym WorldPtr = "World option"

text \<open>
  The members of \<open>BaseGame\<close> that the source file uses. The header that declares them
  is not part of the source file; their types are those that the source file uses them
  with. A \<open>std::unique_ptr\<close> is an \<open>option\<close> (\<open>None\<close> is the empty pointer);
  \<open>otherWorlds\<close> is a \<open>std::map\<close> from names to \<open>std::unique_ptr<World>\<close>, the type
  that \<open>setWorld\<close> takes from it; the three timestamps are unsigned 32-bit integers, the
  type of the value that \<open>SDL_GetTicks\<close> returns. \<open>windowSize\<close> is what
  \<open>window.getSize\<close> reports. \<open>calls\<close> is the record of the calls made so far, each with
  the contents of \<open>otherWorlds\<close> at the moment of the call.
\<close>

record BaseGame =
  world :: WorldPtr
  otherWorlds :: "string \<rightharpoonup> WorldPtr"
  renderer :: "Renderer option"
  imguiRenderer :: "ImguiRenderer option"
  inputManager :: "InputManager option"
  postCycleDeferred :: "Task list"
  currentTime :: "32 word"
  lastUpdate :: "32 word"
  lastRender :: "32 word"
  closed :: bool
  windowSize :: "int \<times> int"
  calls :: "(Call \<times> (string \<rightharpoonup> WorldPtr)) list"

datatype Exception = out_of_range string | task_exception nat

text \<open>
  How a member function ends: it returns, it throws (the object keeps the state it had
  when the exception left the function), or it dereferences an empty pointer or a
  dangling reference, which C++ leaves undefined.
\<close>

datatype Outcome = Returned BaseGame | Thrown Exception BaseGame | UndefinedBehaviour

definition andThen :: "Outcome \<Rightarrow> (BaseGame \<Rightarrow> Outcome) \<Rightarrow> Outcome" where
  "andThen r f = (case r of Returned g \<Rightarrow> f g | Thrown e g \<Rightarrow> Thrown e g
                  | UndefinedBehaviour \<Rightarrow> UndefinedBehaviour)"

definition call :: "Call \<Rightarrow> BaseGame \<Rightarrow> BaseGame" where
  "call c g = g\<lparr>calls := calls g @ [(c, otherWorlds g)]\<rparr>"

fun callAll :: "Call list \<Rightarrow> BaseGame \<Rightarrow> BaseGame" where
  "callAll [] g = g"
| "callAll (c # cs) g = callAll cs (call c g)"

text \<open>The calls made since the state \<open>g\<close>, read off a later state \<open>g'\<close>.\<close>

definition since :: "BaseGame \<Rightarrow> BaseGame \<Rightarrow> (Call \<times> (string \<rightharpoonup> WorldPtr)) list" where
  "since g g' = drop (length (calls g)) (calls g')"

section \<open>World activation\<close>

text \<open>
  The argument of \<open>setWorld\<close> is an rvalue reference to a \<open>std::unique_ptr<World>\<close>:
  either a pointer object of the caller's own (a local or a temporary), or the pointer
  stored in \<open>otherWorlds\<close> under a name (\<open>it->second\<close> in \<open>switchToOtherWorld\<close>).
  Nothing is moved until \<open>setWorld\<close> assigns from the reference.
\<close>

datatype WorldPtrRef = Temporary WorldPtr | MapSlot string

text \<open>
  \<open>world = std::move(newWorld)\<close>: the pointer is taken out of the referenced object,
  which is left empty, and becomes \<open>world\<close>. A reference to a map entry that does not
  exist is dangling.
\<close>

definition moveAssignWorld :: "WorldPtrRef \<Rightarrow> BaseGame \<Rightarrow> BaseGame option" where
  "moveAssignWorld newWorld g =
     (case newWorld of
        Temporary p \<Rightarrow> Some (g\<lparr>world := p\<rparr>)
      | MapSlot name \<Rightarrow>
          (case otherWorlds g name of
             None \<Rightarrow> None
           | Some p \<Rightarrow> Some (g\<lparr>world := p, otherWorlds := (otherWorlds g)(name \<mapsto> None)\<rparr>)))"

definition setWorld :: "WorldPtrRef \<Rightarrow> BaseGame \<Rightarrow> Outcome" where
  "setWorld newWorld g =
     (let g1 = (case world g of
                  Some w \<Rightarrow>
                    callAll [onPreStopWorld, World_onStop (wid w), onPostStopWorld,
                             onPreDestroyWorld (wid w), World_onDestroy (wid w),
                             onPostDestroyWorld (wid w)] g
                | None \<Rightarrow> g)
      in case moveAssignWorld newWorld g1 of
           None \<Rightarrow> UndefinedBehaviour
         | Some g2 \<Rightarrow>
             (case world g2 of
                None \<Rightarrow> Returned g2
              | Some w \<Rightarrow>
                  (let g3 = (call (Renderer_new (wid w)) g2)\<lparr>renderer := Some (Renderer (wid w))\<rparr>;
                       g4 = callAll [Renderer_setViewport, Renderer_init] g3
                   in case inputManager g4 of
                        None \<Rightarrow> UndefinedBehaviour
                      | Some _ \<Rightarrow>
                          Returned (callAll [InputManager_init, onPreStartWorld,
                                             World_onStart (wid w), onPostStartWorld] g4))))"

definition switchToOtherWorld :: "string \<Rightarrow> BaseGame \<Rightarrow> Outcome" where
  "switchToOtherWorld name g =
     (case otherWorlds g name of
        None \<Rightarrow> Thrown (out_of_range ''No other world by this name'') g
      | Some _ \<Rightarrow>
          andThen (setWorld (MapSlot name) g)
            (\<lambda>g'. Returned (g'\<lparr>otherWorlds := (otherWorlds g')(name := None)\<rparr>)))"

definition clearOtherWorldList :: "BaseGame \<Rightarrow> BaseGame" where
  "clearOtherWorldList g = g\<lparr>otherWorlds := Map.empty\<rparr>"

definition getWorld :: "BaseGame \<Rightarrow> WorldPtr" where
  "getWorld g = world g"

definition isRunning :: "BaseGame \<Rightarrow> bool" where
  "isRunning g = (\<not> closed g)"

definition close :: "BaseGame \<Rightarrow> BaseGame" where
  "close g = g\<lparr>closed := True\<rparr>"

section \<open>World creation\<close>

text \<open>
  Modelled from the spec: \<open>SimulationManager\<close> and its \<open>Transaction\<close> are not part of
  the source file. A transaction buffers the simulations added to it; they join the
  registry, in the order they were added, when the transaction goes out of scope.
\<close>

record Transaction =
  pending :: "Simulation list"

definition transact :: Transaction where
  "transact = \<lparr>pending = []\<rparr>"

definition Transaction_addSimulation :: "Simulation \<Rightarrow> Transaction \<Rightarrow> Transaction" where
  "Transaction_addSimulation s t = t\<lparr>pending := pending t @ [s]\<rparr>"

definition Transaction_release :: "Transaction \<Rightarrow> Simulation list \<Rightarrow> Simulation list" where
  "Transaction_release t registry = registry @ pending t"

definition createWorld :: "World \<Rightarrow> BaseGame \<Rightarrow> World \<times> BaseGame" where
  "createWorld w g =
     (let g1 = callAll [onPreCreateWorld (wid w), World_setConfig (wid w),
                        World_onCreate (wid w)] g;
          simTransact = transact;
          g2 = call (simulations_transact (wid w)) g1;
          simTransact1 = Transaction_addSimulation simulation_Player simTransact;
          g3 = call (addSimulation simulation_Player) g2;
          simTransact2 = Transaction_addSimulation simulation_Physics simTransact1;
          g4 = call (addSimulation simulation_Physics) g3;
          w' = w\<lparr>simulations := Transaction_release simTransact2 (simulations w)\<rparr>;
          g5 = call (Transaction_commit (wid w) (simulations w')) g4
      in (w', callAll [World_initPlayer (wid w), onPostCreateWorld (wid w)] g5))"

section \<open>The phases of the game cycle\<close>

definition preCycle :: "BaseGame \<Rightarrow> BaseGame" where
  "preCycle g = call Window_processEvents g"

text \<open>
  \<open>update\<close>; \<open>now\<close> is the value that the call of \<open>SDL_GetTicks\<close> returns. The
  difference of the two unsigned timestamps is stored in \<open>int elapsedTime\<close>, a signed
  32-bit integer.
\<close>

definition update :: "32 word \<Rightarrow> BaseGame \<Rightarrow> Outcome" where
  "update now g =
     (let g1 = (call (SDL_GetTicks now) g)\<lparr>currentTime := now\<rparr>;
          elapsedTime = sint (currentTime g1 - lastUpdate g1)
      in case world g1 of
           None \<Rightarrow> UndefinedBehaviour
         | Some w \<Rightarrow>
             Returned ((callAll [SoundManager_update (wid w), World_update (wid w) elapsedTime] g1)
                         \<lparr>lastUpdate := currentTime g1\<rparr>))"

definition prepareCamera :: "BaseGame \<Rightarrow> Outcome" where
  "prepareCamera g =
     (case world g of
        None \<Rightarrow> UndefinedBehaviour
      | Some w \<Rightarrow>
          (let c1 = (camera w)\<lparr>camPerspective := True\<rparr>;
               viewportWidth = fst (windowSize g);
               viewportHeight = snd (windowSize g);
               c2 = c1\<lparr>camAspect := FloatDiv (FloatOfInt viewportWidth) (FloatOfInt viewportHeight)\<rparr>;
               headOffset = Vector3f (FloatOfInt 0)
                              (FloatDiv (vy (getScale (player w))) (FloatOfInt 2)) (FloatOfInt 0);
               c3 = c2\<lparr>camPosition := vadd (getPosition (player w)) headOffset\<rparr>;
               c4 = c3\<lparr>camOrientation := getHeadOrientation (player w)\<rparr>
           in Returned (g\<lparr>world := Some (w\<lparr>camera := c4\<rparr>)\<rparr>)))"

definition render :: "BaseGame \<Rightarrow> Outcome" where
  "render g =
     andThen (prepareCamera g) (\<lambda>g1.
       case renderer g1 of
         None \<Rightarrow> UndefinedBehaviour
       | Some _ \<Rightarrow>
           (let g2 = call Renderer_render g1
            in case imguiRenderer g2 of
                 None \<Rightarrow> UndefinedBehaviour
               | Some _ \<Rightarrow>
                   Returned ((callAll [ImguiRenderer_render, Screens_clear, Fps_countCycle,
                                       Window_swapBuffers] g2)
                               \<lparr>lastRender := currentTime g2\<rparr>)))"

text \<open>
  The loop of \<open>postCycle\<close> over \<open>postCycleDeferred\<close>: each task is called in turn; an
  exception thrown by a task leaves the loop and the function.
\<close>

fun runDeferred :: "Task list \<Rightarrow> BaseGame \<Rightarrow> Outcome" where
  "runDeferred [] g = Returned g"
| "runDeferred (t # ts) g =
     (let g1 = call (deferred (taskId t)) g
      in if throws t then Thrown (task_exception (taskId t)) g1 else runDeferred ts g1)"

definition postCycle :: "BaseGame \<Rightarrow> Outcome" where
  "postCycle g =
     (if length (postCycleDeferred g) > 0
      then andThen (runDeferred (postCycleDeferred g) g)
             (\<lambda>g'. Returned (g'\<lparr>postCycleDeferred := []\<rparr>))
      else Returned g)"

definition deferPostCycle :: "Task \<Rightarrow> BaseGame \<Rightarrow> BaseGame" where
  "deferPostCycle t g = g\<lparr>postCycleDeferred := postCycleDeferred g @ [t]\<rparr>"

definition helloWorld :: "string \<Rightarrow> string" where
  "helloWorld t_name = ''Hello '' @ t_name @ ''!''"

definition cleanUp :: "BaseGame \<Rightarrow> Outcome" where
  "cleanUp g =
     andThen (setWorld (Temporary None) (call removeHook g))
       (\<lambda>g'. Returned (callAll [Window_close, Chai_puts (helloWorld ''Bob'')] g'))"

text \<open>
  Modelled from the spec: the loop that calls the phases is not part of the source file.
  One iteration runs \<open>preCycle\<close>, \<open>update\<close>, \<open>render\<close> and \<open>postCycle\<close> in this order.
  \<open>evs\<close>, \<open>ups\<close> and \<open>rns\<close> are the tasks that event handlers, the update and the
  render hand to \<open>deferPostCycle\<close> while their phase runs.
\<close>

fun deferAll :: "Task list \<Rightarrow> BaseGame \<Rightarrow> BaseGame" where
  "deferAll [] g = g"
| "deferAll (t # ts) g = deferAll ts (deferPostCycle t g)"

definition gameCycle :: "32 word \<Rightarrow> Task list \<Rightarrow> Task list \<Rightarrow> Task list \<Rightarrow> BaseGame \<Rightarrow> Outcome" where
  "gameCycle now evs ups rns g =
     andThen (andThen (andThen (Returned (deferAll evs (preCycle g)))
                               (\<lambda>g1. andThen (update now g1) (\<lambda>g2. Returned (deferAll ups g2))))
                      (\<lambda>g3. andThen (render g3) (\<lambda>g4. Returned (deferAll rns g4))))
             postCycle"

section \<open>The calls of the two blocks of setWorld\<close>

text \<open>
  The calls of the first block of \<open>setWorld\<close> (made when a world is active) and of its
  second block (made when the new pointer is not empty), as lists.
\<close>

definition retireCalls :: "WorldPtr \<Rightarrow> Call list" where
  "retireCalls p =
     (case p of
        None \<Rightarrow> []
      | Some old \<Rightarrow> [onPreStopWorld, World_onStop (wid old), onPostStopWorld,
                     onPreDestroyWorld (wid old), World_onDestroy (wid old),
                     onPostDestroyWorld (wid old)])"

definition startCalls :: "WorldPtr \<Rightarrow> Call list" where
  "startCalls p =
     (case p of
        None \<Rightarrow> []
      | Some w \<Rightarrow> [Renderer_new (wid w), Renderer_setViewport, Renderer_init, InputManager_init,
                   onPreStartWorld, World_onStart (wid w), onPostStartWorld])"

section \<open>Example states\<close>

definition exampleWorld :: "nat \<Rightarrow> World" where
  "exampleWorld n =
     \<lparr>wid = n,
      camera = \<lparr>camPerspective = False, camAspect = FloatVal 0,
                camPosition = Vector3f (FloatVal 0) (FloatVal 0) (FloatVal 0),
                camOrientation = Quaternion (FloatVal 0) (FloatVal 0) (FloatVal 0) (FloatVal 1)\<rparr>,
      player = \<lparr>getPosition = Vector3f (FloatVal 1) (FloatVal 2) (FloatVal 3),
                getScale = Vector3f (FloatVal 4) (FloatVal 5) (FloatVal 6),
                getHeadOrientation = Quaternion (FloatVal 7) (FloatVal 8) (FloatVal 9) (FloatVal 10)\<rparr>,
      simulations = []\<rparr>"

text \<open>
  A game after \<open>setup\<close>: world 1 is active, world 2 is cached under the name
  \<open>second\<close>, no task is queued.
\<close>

definition exampleGame :: BaseGame where
  "exampleGame =
     \<lparr>world = Some (exampleWorld 1),
      otherWorlds = [''second'' \<mapsto> Some (exampleWorld 2)],
      renderer = Some (Renderer 1),
      imguiRenderer = Some ImguiRenderer,
      inputManager = Some InputManager,
      postCycleDeferred = [],
      currentTime = 0, lastUpdate = 0, lastRender = 0,
      closed = False,
      windowSize = (800, 600),
      calls = []\<rparr>"

section \<open>Properties\<close>

lemma callAll_eq: "callAll cs g = g\<lparr>calls := calls g @ map (\<lambda>c. (c, otherWorlds g)) cs\<rparr>"
  by (induction cs arbitrary: g) (simp_all add: call_def)

text \<open>
  \<open>setWorld\<close> on a reference into \<open>otherWorlds\<close>: the calls of the first block see the
  registry as it was, those of the second block see the entry with its pointer moved out.
\<close>

lemma setWorld_slot:
  assumes "otherWorlds g name = Some p" and "p \<noteq> None \<longrightarrow> inputManager g \<noteq> None"
  shows "setWorld (MapSlot name) g =
         Returned (g\<lparr>world := p, otherWorlds := (otherWorlds g)(name \<mapsto> None),
                     renderer := (case p of None \<Rightarrow> renderer g | Some w \<Rightarrow> Some (Renderer (wid w))),
                     calls := calls g @ map (\<lambda>c. (c, otherWorlds g)) (retireCalls (world g))
                                @ map (\<lambda>c. (c, (otherWorlds g)(name \<mapsto> None))) (startCalls p)\<rparr>)"
  using assms
  by (cases "world g"; cases p)
     (auto simp add: setWorld_def moveAssignWorld_def callAll_eq call_def retireCalls_def
        startCalls_def)

lemma setWorld_temp:
  assumes "p \<noteq> None \<longrightarrow> inputManager g \<noteq> None"
  shows "setWorld (Temporary p) g =
         Returned (g\<lparr>world := p,
                     renderer := (case p of None \<Rightarrow> renderer g | Some w \<Rightarrow> Some (Renderer (wid w))),
                     calls := calls g
                                @ map (\<lambda>c. (c, otherWorlds g)) (retireCalls (world g) @ startCalls p)\<rparr>)"
  using assms
  by (cases "world g"; cases p)
     (auto simp add: setWorld_def moveAssignWorld_def callAll_eq call_def retireCalls_def
        startCalls_def)

lemma deferAll_eq: "deferAll ts g = g\<lparr>postCycleDeferred := postCycleDeferred g @ ts\<rparr>"
  by (induction ts arbitrary: g) (simp_all add: deferPostCycle_def)

lemma runDeferred_returns:
  "\<forall>t \<in> set ts. \<not> throws t \<Longrightarrow>
   runDeferred ts g =
     Returned (g\<lparr>calls := calls g @ map (\<lambda>t. (deferred (taskId t), otherWorlds g)) ts\<rparr>)"
  by (induction ts arbitrary: g) (simp_all add: call_def)

lemma runDeferred_throws:
  "\<forall>a \<in> set as. \<not> throws a \<Longrightarrow> throws t \<Longrightarrow>
   runDeferred (as @ t # bs) g =
     Thrown (task_exception (taskId t))
       (g\<lparr>calls := calls g @ map (\<lambda>t. (deferred (taskId t), otherWorlds g)) (as @ [t])\<rparr>)"
  by (induction as arbitrary: g) (simp_all add: call_def)

lemma update_returns:
  "world g = Some w \<Longrightarrow>
   update now g =
     Returned (g\<lparr>currentTime := now, lastUpdate := now,
                 calls := calls g @ map (\<lambda>c. (c, otherWorlds g))
                   [SDL_GetTicks now, SoundManager_update (wid w),
                    World_update (wid w) (sint (now - lastUpdate g))]\<rparr>)"
  by (simp add: update_def call_def callAll_eq)

lemma prepareCamera_returns:
  "world g = Some w \<Longrightarrow>
   prepareCamera g =
     Returned (g\<lparr>world := Some (w\<lparr>camera := (camera w)
       \<lparr>camPerspective := True,
        camAspect := FloatDiv (FloatOfInt (fst (windowSize g))) (FloatOfInt (snd (windowSize g))),
        camPosition := vadd (getPosition (player w))
           (Vector3f (FloatOfInt 0) (FloatDiv (vy (getScale (player w))) (FloatOfInt 2)) (FloatOfInt 0)),
        camOrientation := getHeadOrientation (player w)\<rparr>\<rparr>)\<rparr>)"
  by (simp add: prepareCamera_def)

lemma render_returns:
  assumes "world g = Some w" and "renderer g = Some r" and "imguiRenderer g = Some ir"
  shows "render g =
     Returned (g\<lparr>world := Some (w\<lparr>camera := (camera w)
       \<lparr>camPerspective := True,
        camAspect := FloatDiv (FloatOfInt (fst (windowSize g))) (FloatOfInt (snd (windowSize g))),
        camPosition := vadd (getPosition (player w))
           (Vector3f (FloatOfInt 0) (FloatDiv (vy (getScale (player w))) (FloatOfInt 2)) (FloatOfInt 0)),
        camOrientation := getHeadOrientation (player w)\<rparr>\<rparr>),
                 lastRender := currentTime g,
                 calls := calls g @ map (\<lambda>c. (c, otherWorlds g))
                   [Renderer_render, ImguiRenderer_render, Screens_clear, Fps_countCycle,
                    Window_swapBuffers]\<rparr>)"
  using assms
  by (simp add: render_def andThen_def prepareCamera_returns call_def callAll_eq)

lemma gameCycle_before_postCycle:
  assumes "world g = Some w" and "renderer g = Some r" and "imguiRenderer g = Some ir"
  shows "gameCycle now evs ups rns g =
         postCycle (g\<lparr>currentTime := now, lastUpdate := now,
           world := Some (w\<lparr>camera := (camera w)
             \<lparr>camPerspective := True,
              camAspect := FloatDiv (FloatOfInt (fst (windowSize g))) (FloatOfInt (snd (windowSize g))),
              camPosition := vadd (getPosition (player w))
                (Vector3f (FloatOfInt 0) (FloatDiv (vy (getScale (player w))) (FloatOfInt 2))
                   (FloatOfInt 0)),
              camOrientation := getHeadOrientation (player w)\<rparr>\<rparr>),
           lastRender := now,
           calls := calls g @ map (\<lambda>c. (c, otherWorlds g))
             [Window_processEvents, SDL_GetTicks now, SoundManager_update (wid w),
              World_update (wid w) (sint (now - lastUpdate g)), Renderer_render,
              ImguiRenderer_render, Screens_clear, Fps_countCycle, Window_swapBuffers],
           postCycleDeferred := postCycleDeferred g @ evs @ ups @ rns\<rparr>)"
  using assms
  by (simp add: gameCycle_def andThen_def deferAll_eq preCycle_def call_def
        update_returns [where w = w] render_returns [where w = w and r = r and ir = ir])

lemma postCycle_returns:
  assumes "\<forall>t \<in> set (postCycleDeferred g). \<not> throws t"
  shows "\<exists>g'. postCycle g = Returned g' \<and> postCycleDeferred g' = []
           \<and> calls g' = calls g @ map (\<lambda>t. (deferred (taskId t), otherWorlds g))
                                       (postCycleDeferred g)"
proof (cases "postCycleDeferred g = []")
  case True
  then show ?thesis by (simp add: postCycle_def)
next
  case False
  then show ?thesis
    by (simp add: postCycle_def andThen_def runDeferred_returns [OF assms])
qed

lemma postCycle_throws:
  assumes "postCycleDeferred g = as @ t # bs" and "\<forall>a \<in> set as. \<not> throws a" and "throws t"
  shows "\<exists>g'. postCycle g = Thrown (task_exception (taskId t)) g'
           \<and> postCycleDeferred g' = postCycleDeferred g
           \<and> calls g' = calls g @ map (\<lambda>t. (deferred (taskId t), otherWorlds g)) (as @ [t])"
  using assms by (simp add: postCycle_def andThen_def runDeferred_throws)

subsection \<open>Switching to a cached world\<close>

text \<open>
  Claim C2. For a name that is absent from \<open>otherWorlds\<close>, \<open>switchToOtherWorld\<close> throws
  \<open>std::out_of_range\<close> and leaves the whole state of the game, the registry and the
  active world among it, exactly as it was before the call.
\<close>

theorem switchToOtherWorld_absent:
  "otherWorlds g name = None \<Longrightarrow>
   switchToOtherWorld name g = Thrown (out_of_range ''No other world by this name'') g"
  by (simp add: switchToOtherWorld_def)

theorem switchToOtherWorld_absent_witness:
  "otherWorlds exampleGame ''third'' = None \<and>
   switchToOtherWorld ''third'' exampleGame
     = Thrown (out_of_range ''No other world by this name'') exampleGame"
  using switchToOtherWorld_absent [of exampleGame "''third''"]
  by (simp add: exampleGame_def)

text \<open>
  Claim C3. For a name under which \<open>otherWorlds\<close> holds a world \<open>w\<close> (and with the input
  manager in place, as after \<open>setup\<close>), \<open>switchToOtherWorld\<close> returns, the entry is gone
  from the registry, \<open>w\<close> is the active world, and the calls made are: for a previously
  active world its stop and destroy sequence (\<open>onStop\<close> and \<open>onDestroy\<close> among them),
  and only after these the start sequence of \<open>w\<close> with its \<open>onStart\<close>.
\<close>

theorem switchToOtherWorld_present:
  assumes "otherWorlds g name = Some (Some w)" and "inputManager g = Some im"
  shows "\<exists>g'. switchToOtherWorld name g = Returned g'
           \<and> otherWorlds g' = (otherWorlds g)(name := None)
           \<and> world g' = Some w
           \<and> map fst (since g g') =
               (case world g of
                  None \<Rightarrow> []
                | Some old \<Rightarrow> [onPreStopWorld, World_onStop (wid old), onPostStopWorld,
                               onPreDestroyWorld (wid old), World_onDestroy (wid old),
                               onPostDestroyWorld (wid old)])
               @ [Renderer_new (wid w), Renderer_setViewport, Renderer_init, InputManager_init,
                  onPreStartWorld, World_onStart (wid w), onPostStartWorld]"
  using assms
  by (simp add: switchToOtherWorld_def andThen_def setWorld_slot since_def retireCalls_def
        startCalls_def comp_def split: option.split)

theorem switchToOtherWorld_present_witness:
  "\<exists>g'. switchToOtherWorld ''second'' exampleGame = Returned g'
     \<and> otherWorlds g' ''second'' = None
     \<and> world g' = Some (exampleWorld 2)
     \<and> map fst (since exampleGame g') =
         [onPreStopWorld, World_onStop 1, onPostStopWorld, onPreDestroyWorld 1,
          World_onDestroy 1, onPostDestroyWorld 1, Renderer_new 2, Renderer_setViewport,
          Renderer_init, InputManager_init, onPreStartWorld, World_onStart 2,
          onPostStartWorld]"
  using switchToOtherWorld_present [of exampleGame "''second''" "exampleWorld 2" InputManager]
  by (auto simp add: exampleGame_def exampleWorld_def)

text \<open>
  Claim C6, as the code has it. For a name present in \<open>otherWorlds\<close> (with the input
  manager in place when the cached pointer is not empty), \<open>switchToOtherWorld\<close> runs the
  activation first and erases the entry last. Every call of the activation sees a
  registry that still has an entry under the name: the stop and destroy calls see the
  registry untouched, the start calls see the entry with its pointer moved out. Once
  \<open>switchToOtherWorld\<close> has returned, the registry has no entry under the name.
\<close>

theorem switchToOtherWorld_erases_last:
  assumes "otherWorlds g name = Some p" and "p \<noteq> None \<longrightarrow> inputManager g \<noteq> None"
  shows "\<exists>g'. switchToOtherWorld name g = Returned g'
           \<and> since g g' =
               map (\<lambda>c. (c, otherWorlds g)) (retireCalls (world g))
               @ map (\<lambda>c. (c, (otherWorlds g)(name \<mapsto> None))) (startCalls p)
           \<and> (\<forall>(c, registry) \<in> set (since g g'). registry name \<noteq> None)
           \<and> otherWorlds g' = (otherWorlds g)(name := None)"
  using assms
  by (auto simp add: switchToOtherWorld_def andThen_def setWorld_slot since_def)

theorem switchToOtherWorld_erases_last_witness:
  "\<exists>g'. switchToOtherWorld ''second'' exampleGame = Returned g'
     \<and> map (\<lambda>(c, registry). (c, registry ''second'')) (since exampleGame g') =
         [(onPreStopWorld, Some (Some (exampleWorld 2))),
          (World_onStop 1, Some (Some (exampleWorld 2))),
          (onPostStopWorld, Some (Some (exampleWorld 2))),
          (onPreDestroyWorld 1, Some (Some (exampleWorld 2))),
          (World_onDestroy 1, Some (Some (exampleWorld 2))),
          (onPostDestroyWorld 1, Some (Some (exampleWorld 2))),
          (Renderer_new 2, Some None), (Renderer_setViewport, Some None),
          (Renderer_init, Some None), (InputManager_init, Some None),
          (onPreStartWorld, Some None), (World_onStart 2, Some None),
          (onPostStartWorld, Some None)]
     \<and> otherWorlds g' ''second'' = None"
  using switchToOtherWorld_erases_last [of exampleGame "''second''" "Some (exampleWorld 2)"]
  by (auto simp add: exampleGame_def retireCalls_def startCalls_def exampleWorld_def)

text \<open>
  Claim C6, as stated, fails: in the example game, the calls made by
  \<open>switchToOtherWorld ''second''\<close> do not all see a registry without the entry
  \<open>second\<close>; the first of them, \<open>onPreStopWorld\<close>, sees the registry as it was.
\<close>

theorem switchToOtherWorld_registry_counterexample:
  "\<not> (\<forall>g'. switchToOtherWorld ''second'' exampleGame = Returned g' \<longrightarrow>
          (\<forall>(c, registry) \<in> set (since exampleGame g'). registry ''second'' = None))"
proof -
  have slot: "otherWorlds exampleGame ''second'' = Some (Some (exampleWorld 2))"
    and im: "Some (exampleWorld 2) \<noteq> None \<longrightarrow> inputManager exampleGame \<noteq> None"
    and active: "world exampleGame = Some (exampleWorld 1)"
    by (simp_all add: exampleGame_def)
  have "\<exists>g'. switchToOtherWorld ''second'' exampleGame = Returned g'
          \<and> (onPreStopWorld, otherWorlds exampleGame) \<in> set (since exampleGame g')"
    by (simp add: switchToOtherWorld_def andThen_def slot setWorld_slot [OF slot im] since_def
          active retireCalls_def)
  with slot show ?thesis
    by fastforce
qed

subsection \<open>Activation\<close>

text \<open>
  Claim C4. When a world \<open>old\<close> is active, \<open>setWorld\<close>, called with a reference to a
  pointer \<open>p\<close> (and with the input manager in place when \<open>p\<close> is not empty), returns
  after these calls, in this order: pre-stop hook, \<open>onStop\<close>, post-stop hook, pre-destroy
  hook, \<open>onDestroy\<close>, post-destroy hook; then, when \<open>p\<close> holds a world, the construction
  of a renderer for it, \<open>setViewport\<close> and \<open>init\<close> of that renderer, \<open>init\<close> of the input
  manager, pre-start hook, \<open>onStart\<close>, post-start hook. The six calls that retire the old
  world see the registry untouched. Afterwards \<open>p\<close> is the active world and, when it is
  not empty, the renderer is the new one.
\<close>

theorem setWorld_order:
  assumes "world g = Some old"
      and "newWorld = Temporary p \<or> (newWorld = MapSlot name \<and> otherWorlds g name = Some p)"
      and "p \<noteq> None \<longrightarrow> inputManager g \<noteq> None"
  shows "\<exists>g'. setWorld newWorld g = Returned g'
           \<and> world g' = p
           \<and> map fst (since g g') =
               [onPreStopWorld, World_onStop (wid old), onPostStopWorld,
                onPreDestroyWorld (wid old), World_onDestroy (wid old),
                onPostDestroyWorld (wid old)]
               @ (case p of
                    None \<Rightarrow> []
                  | Some w \<Rightarrow> [Renderer_new (wid w), Renderer_setViewport, Renderer_init,
                               InputManager_init, onPreStartWorld, World_onStart (wid w),
                               onPostStartWorld])
           \<and> map snd (take 6 (since g g')) = replicate 6 (otherWorlds g)
           \<and> renderer g' = (case p of None \<Rightarrow> renderer g | Some w \<Rightarrow> Some (Renderer (wid w)))"
  using assms
  by (auto simp add: setWorld_slot setWorld_temp since_def retireCalls_def startCalls_def
        comp_def numeral_eq_Suc split: option.split)

theorem setWorld_order_witness:
  "\<exists>g'. setWorld (Temporary (Some (exampleWorld 3))) exampleGame = Returned g'
     \<and> world g' = Some (exampleWorld 3)
     \<and> map fst (since exampleGame g') =
         [onPreStopWorld, World_onStop 1, onPostStopWorld, onPreDestroyWorld 1,
          World_onDestroy 1, onPostDestroyWorld 1, Renderer_new 3, Renderer_setViewport,
          Renderer_init, InputManager_init, onPreStartWorld, World_onStart 3,
          onPostStartWorld]
     \<and> renderer g' = Some (Renderer 3)"
  using setWorld_order [of exampleGame "exampleWorld 1" "Temporary (Some (exampleWorld 3))"
                           "Some (exampleWorld 3)" "''''"]
  by (auto simp add: exampleGame_def exampleWorld_def)

text \<open>
  Claim C9. \<open>setWorld\<close> with an empty pointer, while a world \<open>old\<close> is active, makes the
  six calls that retire \<open>old\<close> and no other call, leaves no active world (\<open>getWorld\<close>
  gives the empty pointer), and leaves \<open>renderer\<close> and \<open>inputManager\<close> as they were.
  \<open>cleanUp\<close> does exactly this between \<open>removeHook\<close> and \<open>window.close\<close>.
\<close>

theorem setWorld_empty:
  assumes "world g = Some old"
  shows "\<exists>g' g''. setWorld (Temporary None) g = Returned g'
           \<and> map fst (since g g') =
               [onPreStopWorld, World_onStop (wid old), onPostStopWorld,
                onPreDestroyWorld (wid old), World_onDestroy (wid old),
                onPostDestroyWorld (wid old)]
           \<and> getWorld g' = None
           \<and> renderer g' = renderer g
           \<and> inputManager g' = inputManager g
           \<and> cleanUp g = Returned g''
           \<and> map fst (since g g'') =
               [removeHook, onPreStopWorld, World_onStop (wid old), onPostStopWorld,
                onPreDestroyWorld (wid old), World_onDestroy (wid old),
                onPostDestroyWorld (wid old), Window_close, Chai_puts ''Hello Bob!'']
           \<and> getWorld g'' = None
           \<and> renderer g'' = renderer g
           \<and> inputManager g'' = inputManager g"
  using assms
  by (simp add: setWorld_temp cleanUp_def andThen_def call_def callAll_eq since_def
        retireCalls_def startCalls_def getWorld_def helloWorld_def)

theorem setWorld_empty_witness:
  "\<exists>g'. setWorld (Temporary None) exampleGame = Returned g'
     \<and> map fst (since exampleGame g') =
         [onPreStopWorld, World_onStop 1, onPostStopWorld, onPreDestroyWorld 1,
          World_onDestroy 1, onPostDestroyWorld 1]
     \<and> getWorld g' = None
     \<and> renderer g' = Some (Renderer 1)
     \<and> inputManager g' = Some InputManager"
  using setWorld_empty [of exampleGame "exampleWorld 1"]
  by (auto simp add: exampleGame_def exampleWorld_def)

subsection \<open>World creation\<close>

text \<open>
  Claim C5. \<open>createWorld\<close> makes these calls, in this order: pre-create hook,
  \<open>setConfig\<close>, \<open>onCreate\<close>, the opening of a transaction on the simulations of the
  world, the registration of the player simulation, then of the physics simulation, the
  commit of the transaction (from which on the registry holds both, the player simulation
  first), \<open>initPlayer\<close>, post-create hook.
\<close>

theorem createWorld_order:
  assumes "createWorld w g = (w', g')"
  shows "map fst (since g g') =
           [onPreCreateWorld (wid w), World_setConfig (wid w), World_onCreate (wid w),
            simulations_transact (wid w), addSimulation simulation_Player,
            addSimulation simulation_Physics,
            Transaction_commit (wid w) (simulations w @ [simulation_Player, simulation_Physics]),
            World_initPlayer (wid w), onPostCreateWorld (wid w)]
         \<and> simulations w' = simulations w @ [simulation_Player, simulation_Physics]
         \<and> wid w' = wid w"
  using assms
  by (auto simp add: createWorld_def call_def callAll_eq since_def transact_def
        Transaction_addSimulation_def Transaction_release_def)

theorem createWorld_order_witness:
  "\<exists>w' g'. createWorld (exampleWorld 3) exampleGame = (w', g')
     \<and> map fst (since exampleGame g') =
         [onPreCreateWorld 3, World_setConfig 3, World_onCreate 3, simulations_transact 3,
          addSimulation simulation_Player, addSimulation simulation_Physics,
          Transaction_commit 3 [simulation_Player, simulation_Physics],
          World_initPlayer 3, onPostCreateWorld 3]
     \<and> simulations w' = [simulation_Player, simulation_Physics]"
proof -
  obtain w' g' where eq: "createWorld (exampleWorld 3) exampleGame = (w', g')"
    by fastforce
  from createWorld_order [OF eq] eq show ?thesis
    by (simp add: exampleWorld_def)
qed

subsection \<open>The update phase\<close>

text \<open>
  Claim C7, as the code has it. With an active world, \<open>update\<close> polls the clock once,
  advances the world by the difference of the polled value \<open>now\<close> and \<open>lastUpdate\<close>,
  computed in unsigned 32-bit arithmetic and read as a signed 32-bit \<open>int\<close>, without
  clamping, and stores \<open>now\<close> in \<open>lastUpdate\<close>. The value passed is exactly
  \<open>now - lastUpdate\<close> whenever this difference is at least 0 and below \<open>2 ^ 31\<close>; for
  \<open>now = lastUpdate\<close> it is 0.
\<close>

theorem update_elapsed:
  assumes "world g = Some w"
  shows "\<exists>g'. update now g = Returned g'
           \<and> map fst (since g g') =
               [SDL_GetTicks now, SoundManager_update (wid w),
                World_update (wid w) (sint (now - lastUpdate g))]
           \<and> lastUpdate g' = now
           \<and> (uint (lastUpdate g) \<le> uint now \<and> uint now - uint (lastUpdate g) < 2 ^ 31
                \<longrightarrow> sint (now - lastUpdate g) = uint now - uint (lastUpdate g))
           \<and> (now = lastUpdate g \<longrightarrow> sint (now - lastUpdate g) = 0)"
proof -
  have "sint (now - lastUpdate g) = uint now - uint (lastUpdate g)"
    if le: "uint (lastUpdate g) \<le> uint now" and small: "uint now - uint (lastUpdate g) < 2 ^ 31"
  proof -
    have "lastUpdate g \<le> now"
      using le by (simp add: word_le_def)
    then have u: "uint (now - lastUpdate g) = uint now - uint (lastUpdate g)"
      by (simp add: uint_sub_if' word_le_def)
    have "- (2 ^ 31) \<le> uint (now - lastUpdate g)"
      by (rule order_trans [of _ 0]) simp_all
    moreover have "uint (now - lastUpdate g) < 2 ^ 31"
      using small u by simp
    ultimately have "signed_take_bit 31 (uint (now - lastUpdate g)) = uint (now - lastUpdate g)"
      by (rule signed_take_bit_int_eq_self)
    then have "sint (now - lastUpdate g) = uint (now - lastUpdate g)"
      by (simp add: sint_uint)
    with u show ?thesis by simp
  qed
  then show ?thesis
    using assms by (simp add: update_returns since_def)
qed


theorem update_elapsed_witness:
  "\<exists>g'. update 16 (exampleGame\<lparr>lastUpdate := 11\<rparr>) = Returned g'
     \<and> map fst (since (exampleGame\<lparr>lastUpdate := 11\<rparr>) g') =
         [SDL_GetTicks 16, SoundManager_update 1, World_update 1 5]
     \<and> lastUpdate g' = 16"
  using update_elapsed [of "exampleGame\<lparr>lastUpdate := 11\<rparr>" "exampleWorld 1" 16]
  by (auto simp add: exampleGame_def exampleWorld_def)

text \<open>
  Claim C7, as stated, fails for a large gap: with \<open>lastUpdate = 0\<close> and a poll that
  returns \<open>2 ^ 31\<close>, the world is advanced by \<open>- (2 ^ 31)\<close> milliseconds and not by
  the difference \<open>2 ^ 31\<close> of the two timestamps.
\<close>

theorem update_large_gap_counterexample:
  "\<exists>g'. update 2147483648 exampleGame = Returned g'
     \<and> map fst (since exampleGame g') =
         [SDL_GetTicks 2147483648, SoundManager_update 1, World_update 1 (- 2147483648)]
     \<and> uint (2147483648 :: 32 word) - uint (lastUpdate exampleGame) = 2147483648
     \<and> World_update 1 (uint (2147483648 :: 32 word) - uint (lastUpdate exampleGame))
           \<notin> set (map fst (since exampleGame g'))"
  by (simp add: update_def call_def callAll_eq since_def exampleGame_def exampleWorld_def)

subsection \<open>The render phase\<close>

text \<open>
  Claim C8. With an active world, a renderer and an imgui renderer, \<open>render\<close> returns, and
  afterwards the position of the camera is the position of the player with the float
  \<open>scale.y / 2\<close> added along the y axis (and the float 0 along the two others), and the
  aspect of the camera is the float quotient of the width and the height that the window
  reports.
\<close>

theorem render_camera:
  assumes "world g = Some w" and "renderer g = Some r" and "imguiRenderer g = Some ir"
  shows "\<exists>g' w'. render g = Returned g' \<and> world g' = Some w'
           \<and> player w' = player w
           \<and> camPosition (camera w') =
               Vector3f (FloatAdd (vx (getPosition (player w))) (FloatOfInt 0))
                        (FloatAdd (vy (getPosition (player w)))
                                  (FloatDiv (vy (getScale (player w))) (FloatOfInt 2)))
                        (FloatAdd (vz (getPosition (player w))) (FloatOfInt 0))
           \<and> camAspect (camera w') =
               FloatDiv (FloatOfInt (fst (windowSize g))) (FloatOfInt (snd (windowSize g)))"
  by (simp add: render_returns [OF assms] vadd_def)

theorem render_camera_witness:
  "\<exists>g' w'. render exampleGame = Returned g' \<and> world g' = Some w'
     \<and> camPosition (camera w') =
         Vector3f (FloatAdd (FloatVal 1) (FloatOfInt 0))
                  (FloatAdd (FloatVal 2) (FloatDiv (FloatVal 5) (FloatOfInt 2)))
                  (FloatAdd (FloatVal 3) (FloatOfInt 0))
     \<and> camAspect (camera w') = FloatDiv (FloatOfInt 800) (FloatOfInt 600)"
  using render_camera [of exampleGame "exampleWorld 1" "Renderer 1" ImguiRenderer]
  by (auto simp add: exampleGame_def exampleWorld_def)

text \<open>
  Claim C10. \<open>render\<close> makes no call of \<open>SDL_GetTicks\<close>: its calls are those of the two
  renderers, of the screen list, of the frame counter and of the window. It stores in
  \<open>lastRender\<close> the value of \<open>currentTime\<close>, which it leaves as it was; after an
  \<open>update\<close> that polled \<open>now\<close>, the \<open>render\<close> that follows leaves \<open>lastRender = now\<close>.
\<close>

theorem render_timestamp:
  assumes "world g = Some w" and "renderer g = Some r" and "imguiRenderer g = Some ir"
  shows "\<exists>g' g1 g2. render g = Returned g'
           \<and> lastRender g' = currentTime g
           \<and> currentTime g' = currentTime g
           \<and> map fst (since g g') =
               [Renderer_render, ImguiRenderer_render, Screens_clear, Fps_countCycle,
                Window_swapBuffers]
           \<and> update now g = Returned g1
           \<and> render g1 = Returned g2
           \<and> lastRender g2 = now"
proof -
  have "\<exists>g'. render g = Returned g'
           \<and> lastRender g' = currentTime g
           \<and> currentTime g' = currentTime g
           \<and> map fst (since g g') =
               [Renderer_render, ImguiRenderer_render, Screens_clear, Fps_countCycle,
                Window_swapBuffers]"
    by (simp add: render_returns [OF assms] since_def)
  moreover obtain g1 where g1: "update now g = Returned g1" "world g1 = Some w"
    "renderer g1 = Some r" "imguiRenderer g1 = Some ir" "currentTime g1 = now"
    using assms by (simp add: update_returns)
  moreover have "\<exists>g2. render g1 = Returned g2 \<and> lastRender g2 = now"
    using g1(5) by (simp add: render_returns [OF g1(2,3,4)])
  ultimately show ?thesis
    by auto
qed

theorem render_timestamp_witness:
  "\<exists>g1 g2. update 16 exampleGame = Returned g1 \<and> render g1 = Returned g2
     \<and> lastRender g2 = 16"
  using render_timestamp [of exampleGame "exampleWorld 1" "Renderer 1" ImguiRenderer 16]
  by (auto simp add: exampleGame_def)


subsection \<open>Deferred tasks\<close>

text \<open>
  Claim C1, as the code has it. Take an iteration with an active world and both
  renderers, in which the tasks \<open>evs\<close>, \<open>ups\<close> and \<open>rns\<close> are handed to
  \<open>deferPostCycle\<close> during event handling, update and render; the queue then holds the
  tasks it held before, followed by these. If none of the queued tasks throws, the
  iteration returns, after the calls of render each queued task has been called exactly
  once, in the order of enqueueing, and the queue is empty. If a queued task throws, the
  exception leaves \<open>postCycle\<close> and the iteration: the tasks up to and including the
  throwing one have been called, in order, the later ones have not, and the queue still
  holds every task.
\<close>

theorem gameCycle_deferred:
  assumes "world g = Some w" and "renderer g = Some r" and "imguiRenderer g = Some ir"
    and "queued = postCycleDeferred g @ evs @ ups @ rns"
  shows "((\<forall>t \<in> set queued. \<not> throws t) \<longrightarrow>
            (\<exists>g'. gameCycle now evs ups rns g = Returned g'
               \<and> map fst (since g g') =
                   [Window_processEvents, SDL_GetTicks now, SoundManager_update (wid w),
                    World_update (wid w) (sint (now - lastUpdate g)), Renderer_render,
                    ImguiRenderer_render, Screens_clear, Fps_countCycle, Window_swapBuffers]
                   @ map (\<lambda>t. deferred (taskId t)) queued
               \<and> postCycleDeferred g' = []))
       \<and> (\<forall>as t bs. queued = as @ t # bs \<and> (\<forall>a \<in> set as. \<not> throws a) \<and> throws t \<longrightarrow>
            (\<exists>g'. gameCycle now evs ups rns g = Thrown (task_exception (taskId t)) g'
               \<and> map fst (since g g') =
                   [Window_processEvents, SDL_GetTicks now, SoundManager_update (wid w),
                    World_update (wid w) (sint (now - lastUpdate g)), Renderer_render,
                    ImguiRenderer_render, Screens_clear, Fps_countCycle, Window_swapBuffers]
                   @ map (\<lambda>t. deferred (taskId t)) (as @ [t])
               \<and> postCycleDeferred g' = queued))"
proof -
  obtain g4 where cyc: "gameCycle now evs ups rns g = postCycle g4"
    and queue: "postCycleDeferred g4 = queued"
    and phases: "calls g4 = calls g @ map (\<lambda>c. (c, otherWorlds g))
               [Window_processEvents, SDL_GetTicks now, SoundManager_update (wid w),
                World_update (wid w) (sint (now - lastUpdate g)), Renderer_render,
                ImguiRenderer_render, Screens_clear, Fps_countCycle, Window_swapBuffers]"
    using gameCycle_before_postCycle [OF assms(1,2,3), of now evs ups rns] assms(4) by simp
  have ok: "\<exists>g'. gameCycle now evs ups rns g = Returned g'
               \<and> map fst (since g g') =
                   [Window_processEvents, SDL_GetTicks now, SoundManager_update (wid w),
                    World_update (wid w) (sint (now - lastUpdate g)), Renderer_render,
                    ImguiRenderer_render, Screens_clear, Fps_countCycle, Window_swapBuffers]
                   @ map (\<lambda>t. deferred (taskId t)) queued
               \<and> postCycleDeferred g' = []"
    if "\<forall>t \<in> set queued. \<not> throws t"
  proof -
    have "\<forall>t \<in> set (postCycleDeferred g4). \<not> throws t"
      using that queue by simp
    from postCycle_returns [OF this] obtain g' where "postCycle g4 = Returned g'"
      "postCycleDeferred g' = []"
      "calls g' = calls g4 @ map (\<lambda>t. (deferred (taskId t), otherWorlds g4)) (postCycleDeferred g4)"
      by blast
    then show ?thesis
      by (simp add: cyc queue phases since_def comp_def)
  qed
  have bad: "\<exists>g'. gameCycle now evs ups rns g = Thrown (task_exception (taskId t)) g'
               \<and> map fst (since g g') =
                   [Window_processEvents, SDL_GetTicks now, SoundManager_update (wid w),
                    World_update (wid w) (sint (now - lastUpdate g)), Renderer_render,
                    ImguiRenderer_render, Screens_clear, Fps_countCycle, Window_swapBuffers]
                   @ map (\<lambda>t. deferred (taskId t)) (as @ [t])
               \<and> postCycleDeferred g' = queued"
    if "queued = as @ t # bs" "\<forall>a \<in> set as. \<not> throws a" "throws t" for as t bs
  proof -
    have "postCycleDeferred g4 = as @ t # bs"
      using that(1) queue by simp
    from postCycle_throws [OF this that(2,3)] obtain g' where
      "postCycle g4 = Thrown (task_exception (taskId t)) g'"
      "postCycleDeferred g' = postCycleDeferred g4"
      "calls g' = calls g4 @ map (\<lambda>t. (deferred (taskId t), otherWorlds g4)) (as @ [t])"
      by blast
    then show ?thesis
      by (simp add: cyc queue phases since_def comp_def)
  qed
  show ?thesis
    using ok bad by blast
qed

theorem gameCycle_deferred_witness:
  "(\<exists>g'. gameCycle 16 [Task 0 False] [Task 1 False, Task 2 False] [Task 3 False] exampleGame
            = Returned g'
      \<and> map fst (since exampleGame g') =
          [Window_processEvents, SDL_GetTicks 16, SoundManager_update 1, World_update 1 16,
           Renderer_render, ImguiRenderer_render, Screens_clear, Fps_countCycle,
           Window_swapBuffers, deferred 0, deferred 1, deferred 2, deferred 3]
      \<and> postCycleDeferred g' = [])
   \<and> (\<exists>g'. gameCycle 16 [] [Task 1 False, Task 2 True, Task 3 False] [] exampleGame
            = Thrown (task_exception 2) g'
      \<and> map fst (since exampleGame g') =
          [Window_processEvents, SDL_GetTicks 16, SoundManager_update 1, World_update 1 16,
           Renderer_render, ImguiRenderer_render, Screens_clear, Fps_countCycle,
           Window_swapBuffers, deferred 1, deferred 2]
      \<and> postCycleDeferred g' = [Task 1 False, Task 2 True, Task 3 False])"
proof -
  have ex: "world exampleGame = Some (exampleWorld 1)" "renderer exampleGame = Some (Renderer 1)"
    "imguiRenderer exampleGame = Some ImguiRenderer" "postCycleDeferred exampleGame = []"
    "lastUpdate exampleGame = 0"
    by (simp_all add: exampleGame_def)
  have q1: "[Task 0 False, Task 1 False, Task 2 False, Task 3 False]
              = postCycleDeferred exampleGame @ [Task 0 False] @ [Task 1 False, Task 2 False]
                  @ [Task 3 False]"
    and q2: "[Task 1 False, Task 2 True, Task 3 False]
              = postCycleDeferred exampleGame @ [] @ [Task 1 False, Task 2 True, Task 3 False] @ []"
    by (simp_all add: ex)
  have "\<exists>g'. gameCycle 16 [Task 0 False] [Task 1 False, Task 2 False] [Task 3 False] exampleGame
            = Returned g'
      \<and> map fst (since exampleGame g') =
          [Window_processEvents, SDL_GetTicks 16, SoundManager_update 1, World_update 1 16,
           Renderer_render, ImguiRenderer_render, Screens_clear, Fps_countCycle,
           Window_swapBuffers, deferred 0, deferred 1, deferred 2, deferred 3]
      \<and> postCycleDeferred g' = []"
    using gameCycle_deferred [OF ex(1,2,3) q1, of 16, THEN conjunct1]
    by (simp add: ex exampleWorld_def)
  moreover have "\<exists>g'. gameCycle 16 [] [Task 1 False, Task 2 True, Task 3 False] [] exampleGame
            = Thrown (task_exception 2) g'
      \<and> map fst (since exampleGame g') =
          [Window_processEvents, SDL_GetTicks 16, SoundManager_update 1, World_update 1 16,
           Renderer_render, ImguiRenderer_render, Screens_clear, Fps_countCycle,
           Window_swapBuffers, deferred 1, deferred 2]
      \<and> postCycleDeferred g' = [Task 1 False, Task 2 True, Task 3 False]"
    using gameCycle_deferred [OF ex(1,2,3) q2, of 16, THEN conjunct2, rule_format,
               of "[Task 1 False]" "Task 2 True" "[Task 3 False]"]
    by (simp add: ex exampleWorld_def)
  ultimately show ?thesis
    by (rule conjI)
qed

text \<open>
  Claim C1, as stated, fails when a task throws: with three tasks enqueued during update,
  the second of which throws, the iteration ends with the exception, the third task is
  never called, and the queue is not cleared.
\<close>

theorem postCycle_throwing_task_counterexample:
  "\<exists>g'. gameCycle 16 [] [Task 1 False, Task 2 True, Task 3 False] [] exampleGame
           = Thrown (task_exception 2) g'
     \<and> postCycleDeferred g' = [Task 1 False, Task 2 True, Task 3 False]
     \<and> deferred 3 \<notin> set (map fst (since exampleGame g'))"
proof -
  have ex: "world exampleGame = Some (exampleWorld 1)" "renderer exampleGame = Some (Renderer 1)"
    "imguiRenderer exampleGame = Some ImguiRenderer" "postCycleDeferred exampleGame = []"
    by (simp_all add: exampleGame_def)
  show ?thesis
    by (simp add: gameCycle_before_postCycle [OF ex(1,2,3)] ex(4) postCycle_def andThen_def
          call_def since_def)
qed

end
